theory Spec2Isabelle
  imports Main "HOL-Library.Sublist"
begin

section \<open>Python values, errors and the request\<close>

text \<open>
  The module \<^verbatim>\<open>pulp_python/app/viewsets.py\<close> holds three request handlers:
  \<^verbatim>\<open>PythonPackageContentViewSet.create\<close>, \<^verbatim>\<open>PythonRemoteViewSet.sync\<close> and
  \<^verbatim>\<open>PythonPublisherViewSet.publish\<close>. Everything they call outside the module
  (pulpcore, Django REST framework, pkginfo, the file system, the serializers and
  utilities of \<^verbatim>\<open>pulp_python.app\<close>) is a parameter of the model: a field of the
  record \<open>collaborators\<close> below, free to return any value or raise any exception.

  Python values that travel through \<^verbatim>\<open>create\<close>: the attributes of the pkginfo
  object and the entries of the dict handed to the serializer.
\<close>

datatype pyval =
    PNone
  | PStr string
  | PList "pyval list"
  | PDict "(string \<times> pyval) list"

type_synonym pydict = "string \<rightharpoonup> pyval"

text \<open>
  A Python object: the attributes of the instance (what \<^verbatim>\<open>vars(obj)\<close> returns and
  an assignment \<^verbatim>\<open>obj.name = v\<close> writes) and the attributes of its class, which
  \<^verbatim>\<open>obj.name\<close> falls back to. pkginfo declares its fields on the class with
  defaults and sets on the instance those it finds in the archive.
\<close>

record pyobject =
  obj_dict :: pydict
  obj_class :: pydict

text \<open>
  Exceptions as values. \<open>ValidationError\<close> is
  \<^verbatim>\<open>rest_framework.serializers.ValidationError\<close> with its detail: a dict of one
  field and its message (lines 79 and 84) or a plain message (line 100).
  \<open>InvalidRequest\<close> and \<open>ConflictError\<close> are named by the specification only; no line
  of the module raises them.
\<close>

datatype detail =
    FieldDetail string string
  | Message string

datatype error =
    ValidationError detail
  | KeyError string
  | AttributeError string
  | TypeError string
  | OSError string
  | ValueError string
  | NotFound string
  | InvalidRequest string
  | ConflictError string

record request =
  req_data :: "string \<rightharpoonup> string"

record artifact =
  file_path :: string

section \<open>The extension tables (lines 26 to 40)\<close>

text \<open>
  A Python dict iterates in insertion order, so \<^verbatim>\<open>DIST_EXTENSIONS.items()\<close> is
  the association list in the order of the source text.
\<close>

definition DIST_EXTENSIONS :: "(string \<times> string) list" where
  "DIST_EXTENSIONS =
     [(''.whl'', ''bdist_wheel''),
      (''.exe'', ''bdist_wininst''),
      (''.egg'', ''bdist_egg''),
      (''.tar.bz2'', ''sdist''),
      (''.tar.gz'', ''sdist''),
      (''.zip'', ''sdist'')]"

datatype dist_class = Wheel | Distribution | BDist | SDist

definition DIST_TYPES :: "(string \<times> dist_class) list" where
  "DIST_TYPES =
     [(''bdist_wheel'', Wheel),
      (''bdist_wininst'', Distribution),
      (''bdist_egg'', BDist),
      (''sdist'', SDist)]"

text \<open>\<^verbatim>\<open>s.endswith(e)\<close>: the last \<open>length e\<close> characters of \<open>s\<close> are \<open>e\<close>.\<close>

definition endswith :: "string \<Rightarrow> string \<Rightarrow> bool" where
  "endswith s e = (length e \<le> length s \<and> drop (length s - length e) s = e)"

text \<open>
  The scan of the loop at lines 87 and 88: the first entry of the table whose
  extension ends the filename; \<open>None\<close> when the loop runs to its \<^verbatim>\<open>else\<close>.
\<close>

fun match_extension :: "string \<Rightarrow> (string \<times> string) list \<Rightarrow> (string \<times> string) option" where
  "match_extension filename [] = None"
| "match_extension filename ((ext, packagetype) # rest) =
     (if endswith filename ext then Some (ext, packagetype)
      else match_extension filename rest)"

section \<open>The world of \<^verbatim>\<open>create\<close>\<close>

text \<open>
  Modelled from the spec: the model class \<^verbatim>\<open>PythonPackageContent\<close> of
  \<^verbatim>\<open>pulp_python.app.models\<close> is not part of the module. A content unit has the
  attributes the specification's data model (section 3) lists for it.
\<close>

record content_unit =
  cu_name :: string
  cu_version :: string
  cu_packagetype :: string
  cu_filename :: string
  cu_author :: pyval
  cu_summary :: pyval
  cu_keywords :: pyval
  cu_classifiers :: "string list"
  cu_artifact :: string

text \<open>
  Calls that reach the file system or pkginfo, in the order they are made:
  the temporary directory created, \<^verbatim>\<open>shutil.copy2(src, dst)\<close>, the pkginfo
  class called on a path, the temporary directory removed.
\<close>

datatype event =
    TmpCreate string
  | Copy string string
  | ReadMetadata dist_class string
  | TmpCleanup string

text \<open>
  \<open>content\<close> is the table of content units of the database, \<open>tempdirs\<close> the
  temporary directories that exist, \<open>effects\<close> the calls made so far (oldest first).
\<close>

record world =
  content :: "content_unit list"
  tempdirs :: "string list"
  effects :: "event list"

text \<open>
  The collaborators of \<^verbatim>\<open>create\<close>:
  \<^item> \<open>get_resource\<close>: \<^verbatim>\<open>self.get_resource(uri, Artifact)\<close> of pulpcore;
  \<^item> \<open>mkdtemp\<close>: the directory \<^verbatim>\<open>tempfile.TemporaryDirectory()\<close> creates, given the
    ones that exist;
  \<^item> \<open>copy2\<close>: \<^verbatim>\<open>shutil.copy2\<close>, \<open>None\<close> when it returns;
  \<^item> \<open>pkginfo\<close>: the pkginfo class called on a path, returning the object it builds;
  \<^item> \<open>parse_project_metadata\<close>: \<^verbatim>\<open>pulp_python.app.utils.parse_project_metadata\<close>,
    called on a dict;
  \<^item> \<open>is_valid\<close>: \<^verbatim>\<open>serializer.is_valid(raise_exception=True)\<close>, returning the
    validated data;
  \<^item> \<open>perform_create\<close>: \<^verbatim>\<open>self.perform_create(serializer)\<close>, which writes to the
    table and may fail after it has written.
\<close>

record collaborators =
  get_resource :: "string \<Rightarrow> error + artifact"
  mkdtemp :: "string list \<Rightarrow> error + string"
  copy2 :: "string \<Rightarrow> string \<Rightarrow> error option"
  pkginfo :: "dist_class \<Rightarrow> string \<Rightarrow> error + pyobject"
  parse_project_metadata :: "pydict \<Rightarrow> error + pydict"
  is_valid :: "pydict \<Rightarrow> error + pydict"
  perform_create :: "pydict \<Rightarrow> content_unit list \<Rightarrow> (error + content_unit) \<times> content_unit list"

section \<open>Python primitives\<close>

text \<open>\<^verbatim>\<open>os.path.join(a, b)\<close> of posixpath: an absolute \<open>b\<close> replaces \<open>a\<close>.\<close>

definition os_path_join :: "string \<Rightarrow> string \<Rightarrow> string" where
  "os_path_join a b =
     (if take 1 b = ''/'' then b
      else if a = [] \<or> endswith a ''/'' then a @ b
      else a @ ''/'' @ b)"

text \<open>
  Attribute access \<^verbatim>\<open>obj.name\<close>, assignment \<^verbatim>\<open>obj.name = v\<close> and
  \<^verbatim>\<open>vars(obj)\<close>.
\<close>

definition getattr :: "pyobject \<Rightarrow> string \<Rightarrow> error + pyval" where
  "getattr obj attr =
     (case obj_dict obj attr of
        Some v \<Rightarrow> Inr v
      | None \<Rightarrow>
          (case obj_class obj attr of
             Some v \<Rightarrow> Inr v
           | None \<Rightarrow> Inl (AttributeError attr)))"

definition setattr :: "pyobject \<Rightarrow> string \<Rightarrow> pyval \<Rightarrow> pyobject" where
  "setattr obj attr v = obj\<lparr>obj_dict := (obj_dict obj)(attr \<mapsto> v)\<rparr>"

definition py_vars :: "pyobject \<Rightarrow> pydict" where
  "py_vars obj = obj_dict obj"

text \<open>
  \<^verbatim>\<open>for x in v\<close>: a list yields its elements, a string its characters, a dict its
  keys; \<^verbatim>\<open>None\<close> is not iterable.
\<close>

definition iterate :: "pyval \<Rightarrow> error + pyval list" where
  "iterate v =
     (case v of
        PNone \<Rightarrow> Inl (TypeError ''NoneType object is not iterable'')
      | PStr s \<Rightarrow> Inr (map (\<lambda>c. PStr [c]) s)
      | PList xs \<Rightarrow> Inr xs
      | PDict kvs \<Rightarrow> Inr (map (\<lambda>kv. PStr (fst kv)) kvs))"

section \<open>\<^verbatim>\<open>PythonPackageContentViewSet.create\<close> (lines 71 to 117)\<close>

text \<open>The message of line 100, with the filename put in by \<^verbatim>\<open>format\<close>.\<close>

definition invalid_extension_message :: "string \<Rightarrow> string" where
  "invalid_extension_message filename =
     ''Extension on '' @ filename @
     '' is not a valid python extension (.whl, .exe, .egg, .tar.gz, .tar.bz2, .zip)''"

text \<open>
  The body of the \<^verbatim>\<open>with\<close> block, lines 94 to 97, inside the directory \<open>td\<close>:
  the copy, the pkginfo call, the assignment of \<^verbatim>\<open>metadata.packagetype\<close>.
\<close>

definition read_metadata ::
  "collaborators \<Rightarrow> artifact \<Rightarrow> string \<Rightarrow> string \<Rightarrow> string \<Rightarrow> world \<Rightarrow> (error + pyobject) \<times> world" where
  "read_metadata C artifact filename packagetype td w =
     (let temp_path = os_path_join td filename;
          w1 = w\<lparr>effects := effects w @ [Copy (file_path artifact) temp_path]\<rparr>
      in case copy2 C (file_path artifact) temp_path of
           Some e \<Rightarrow> (Inl e, w1)
         | None \<Rightarrow>
             (case map_of DIST_TYPES packagetype of
                None \<Rightarrow> (Inl (KeyError packagetype), w1)
              | Some cls \<Rightarrow>
                  (let w2 = w1\<lparr>effects := effects w1 @ [ReadMetadata cls temp_path]\<rparr>
                   in case pkginfo C cls temp_path of
                        Inl e \<Rightarrow> (Inl e, w2)
                      | Inr metadata \<Rightarrow>
                          (Inr (setattr metadata ''packagetype'' (PStr packagetype)), w2))))"

text \<open>
  \<^verbatim>\<open>with tempfile.TemporaryDirectory() as td:\<close> (line 93). The directory is
  created, the body runs, and the directory is removed however the body ends:
  by \<^verbatim>\<open>break\<close> or by an exception.
\<close>

definition with_TemporaryDirectory ::
  "collaborators \<Rightarrow> (string \<Rightarrow> world \<Rightarrow> (error + 'a) \<times> world) \<Rightarrow> world \<Rightarrow> (error + 'a) \<times> world" where
  "with_TemporaryDirectory C body w =
     (case mkdtemp C (tempdirs w) of
        Inl e \<Rightarrow> (Inl e, w)
      | Inr td \<Rightarrow>
          (let w1 = w\<lparr>tempdirs := td # tempdirs w, effects := effects w @ [TmpCreate td]\<rparr>;
               rw = body td w1;
               w2 = snd rw
           in (fst rw, w2\<lparr>tempdirs := remove1 td (tempdirs w2),
                            effects := effects w2 @ [TmpCleanup td]\<rparr>)))"

text \<open>
  The loop of lines 87 to 103: the first matching entry runs the \<^verbatim>\<open>with\<close> block
  and leaves the loop; no match reaches the \<^verbatim>\<open>else\<close> and raises.
\<close>

fun extract_metadata ::
  "collaborators \<Rightarrow> artifact \<Rightarrow> string \<Rightarrow> (string \<times> string) list \<Rightarrow> world \<Rightarrow> (error + pyobject) \<times> world" where
  "extract_metadata C artifact filename [] w =
     (Inl (ValidationError (Message (invalid_extension_message filename))), w)"
| "extract_metadata C artifact filename ((ext, packagetype) # rest) w =
     (if endswith filename ext
      then with_TemporaryDirectory C (read_metadata C artifact filename packagetype) w
      else extract_metadata C artifact filename rest w)"

text \<open>
  Lines 105 to 110. \<^verbatim>\<open>vars(metadata)\<close> is the dict of the instance, which by now
  holds \<^verbatim>\<open>packagetype\<close>. The five assignments overwrite whatever
  \<^verbatim>\<open>parse_project_metadata\<close> returned under those keys.
\<close>

definition build_data :: "collaborators \<Rightarrow> request \<Rightarrow> string \<Rightarrow> pyobject \<Rightarrow> error + pydict" where
  "build_data C request filename metadata =
     (case parse_project_metadata C (py_vars metadata) of
        Inl e \<Rightarrow> Inl e
      | Inr parsed \<Rightarrow>
     (case getattr metadata ''classifiers'' of
        Inl e \<Rightarrow> Inl e
      | Inr cv \<Rightarrow>
     (case iterate cv of
        Inl e \<Rightarrow> Inl e
      | Inr classifiers \<Rightarrow>
     (case getattr metadata ''packagetype'' of
        Inl e \<Rightarrow> Inl e
      | Inr pt \<Rightarrow>
     (case getattr metadata ''version'' of
        Inl e \<Rightarrow> Inl e
      | Inr ver \<Rightarrow>
     (case req_data request ''artifact'' of
        None \<Rightarrow> Inl (KeyError ''artifact'')
      | Some uri \<Rightarrow>
          Inr (parsed(''classifiers'' \<mapsto> PList (map (\<lambda>classifier. PDict [(''name'', classifier)]) classifiers),
                      ''packagetype'' \<mapsto> pt,
                      ''version'' \<mapsto> ver,
                      ''filename'' \<mapsto> PStr filename,
                      ''artifact'' \<mapsto> PStr uri))))))))"

text \<open>The response of line 117: status 201 and \<^verbatim>\<open>serializer.data\<close>.\<close>

datatype response = Response content_unit nat

text \<open>
  The errors of lines 79 and 84. The \<^verbatim>\<open>try\<close> of line 76 covers the call of
  \<^verbatim>\<open>get_resource\<close> as well as the subscript, so a \<^verbatim>\<open>KeyError\<close> from either becomes
  the validation error of line 79.
\<close>

definition required :: "string \<Rightarrow> error" where
  "required field = ValidationError (FieldDetail field ''This field is required'')"

text \<open>
  Lines 76 to 110: from the request to the dict \<^verbatim>\<open>data\<close> that line 112 hands to
  the serializer.
\<close>

definition normalized_data :: "collaborators \<Rightarrow> request \<Rightarrow> world \<Rightarrow> (error + pydict) \<times> world" where
  "normalized_data C request w =
     (case req_data request ''artifact'' of
        None \<Rightarrow> (Inl (required ''artifact''), w)
      | Some uri \<Rightarrow>
     (case get_resource C uri of
        Inl (KeyError k) \<Rightarrow> (Inl (required ''artifact''), w)
      | Inl e \<Rightarrow> (Inl e, w)
      | Inr artifact \<Rightarrow>
     (case req_data request ''filename'' of
        None \<Rightarrow> (Inl (required ''filename''), w)
      | Some filename \<Rightarrow>
     (case extract_metadata C artifact filename DIST_EXTENSIONS w of
        (Inl e, w1) \<Rightarrow> (Inl e, w1)
      | (Inr metadata, w1) \<Rightarrow>
     (case build_data C request filename metadata of
        Inl e \<Rightarrow> (Inl e, w1)
      | Inr d \<Rightarrow> (Inr d, w1))))))"

text \<open>
  The whole body: lines 76 to 110, then the serializer and the write, lines 112 to
  117. \<^verbatim>\<open>get_success_headers\<close> of line 116 catches what it raises and writes nothing.
\<close>

definition create_body :: "collaborators \<Rightarrow> request \<Rightarrow> world \<Rightarrow> (error + response) \<times> world" where
  "create_body C request w =
     (case normalized_data C request w of
        (Inl e, w1) \<Rightarrow> (Inl e, w1)
      | (Inr d, w1) \<Rightarrow>
     (case is_valid C d of
        Inl e \<Rightarrow> (Inl e, w1)
      | Inr validated \<Rightarrow>
     (case perform_create C validated (content w1) of
        (Inl e, table) \<Rightarrow> (Inl e, w1\<lparr>content := table\<rparr>)
      | (Inr unit, table) \<Rightarrow> (Inr (Response unit 201), w1\<lparr>content := table\<rparr>))))"

text \<open>
  \<^verbatim>\<open>@transaction.atomic\<close> (line 71): when the body raises, every write it made
  to the database is rolled back; the file system is not part of the transaction.
\<close>

definition transaction_atomic ::
  "(world \<Rightarrow> (error + 'a) \<times> world) \<Rightarrow> world \<Rightarrow> (error + 'a) \<times> world" where
  "transaction_atomic body w =
     (case body w of
        (Inl e, w') \<Rightarrow> (Inl e, w'\<lparr>content := content w\<rparr>)
      | (Inr r, w') \<Rightarrow> (Inr r, w'))"

definition create :: "collaborators \<Rightarrow> request \<Rightarrow> world \<Rightarrow> (error + response) \<times> world" where
  "create C request w = transaction_atomic (create_body C request) w"

section \<open>The dispatchers: \<^verbatim>\<open>sync\<close> (lines 148 to 170) and \<^verbatim>\<open>publish\<close> (lines 187 to 212)\<close>

type_synonym pk = nat

text \<open>A repository version, with the two attributes \<^verbatim>\<open>publish\<close> reads.\<close>

record repository_version =
  rv_pk :: pk
  rv_repository :: pk

text \<open>The model instances that are handed to \<^verbatim>\<open>enqueue_with_reservation\<close> as resources.\<close>

datatype resource = Repository pk | Remote pk | Publisher pk

datatype task = Task_sync | Task_publish

datatype kwarg = Pk pk | Flag "bool option"

record job =
  job_task :: task
  job_resources :: "resource list"
  job_kwargs :: "(string \<times> kwarg) list"

text \<open>
  The calls a dispatcher makes outside the module that read or write shared state,
  in the order they are made: \<^verbatim>\<open>RepositoryVersion.latest(repository)\<close> and
  \<^verbatim>\<open>enqueue_with_reservation\<close>.
\<close>

datatype call = LatestRead "pk option" | Enqueued job

record tasking =
  queue :: "job list"
  calls :: "call list"

record sync_validated =
  sv_repository :: "pk option"
  sv_mirror :: "bool option"

record publish_validated =
  pv_repository_version :: "repository_version option"
  pv_repository :: "pk option"

text \<open>
  The collaborators of the dispatchers:
  \<^item> \<open>get_object\<close>: \<^verbatim>\<open>self.get_object()\<close>, the remote or publisher of the URL;
  \<^item> \<open>sync_serializer\<close>, \<open>publish_serializer\<close>: \<^verbatim>\<open>is_valid(raise_exception=True)\<close> of
    pulpcore's \<^verbatim>\<open>RepositorySyncURLSerializer\<close> and \<^verbatim>\<open>RepositoryPublishURLSerializer\<close>,
    returning \<^verbatim>\<open>validated_data\<close>;
  \<^item> \<open>latest\<close>: \<^verbatim>\<open>RepositoryVersion.latest\<close>, as the ledger answers when it is called.
\<close>

record dispatch_collaborators =
  get_object :: "pk \<Rightarrow> error + pk"
  sync_serializer :: "request \<Rightarrow> error + sync_validated"
  publish_serializer :: "request \<Rightarrow> error + publish_validated"
  latest :: "pk option \<Rightarrow> repository_version option"

text \<open>
  \<^verbatim>\<open>enqueue_with_reservation(task, resources, kwargs=...)\<close> of pulpcore: the job joins
  the queue with the resources it reserves, and the caller gets its handle at once.
\<close>

definition enqueue_with_reservation ::
  "task \<Rightarrow> resource list \<Rightarrow> (string \<times> kwarg) list \<Rightarrow> tasking \<Rightarrow> nat \<times> tasking" where
  "enqueue_with_reservation t resources kwargs s =
     (let j = \<lparr>job_task = t, job_resources = resources, job_kwargs = kwargs\<rparr>
      in (length (queue s), s\<lparr>queue := queue s @ [j], calls := calls s @ [Enqueued j]\<rparr>))"

text \<open>\<^verbatim>\<open>platform.OperationPostponedResponse(result, request)\<close>: status 202 and the handle.\<close>

datatype postponed = OperationPostponedResponse nat

text \<open>
  \<^verbatim>\<open>sync\<close>, lines 152 to 170. The arguments of the call at line 161 are evaluated
  before the call, so \<^verbatim>\<open>repository.pk\<close> on \<^verbatim>\<open>None\<close> raises before anything is
  enqueued.
\<close>

definition sync :: "dispatch_collaborators \<Rightarrow> request \<Rightarrow> pk \<Rightarrow> tasking \<Rightarrow> (error + postponed) \<times> tasking" where
  "sync D request pk s =
     (case get_object D pk of
        Inl e \<Rightarrow> (Inl e, s)
      | Inr remote \<Rightarrow>
     (case sync_serializer D request of
        Inl e \<Rightarrow> (Inl e, s)
      | Inr validated \<Rightarrow>
     (case sv_repository validated of
        None \<Rightarrow> (Inl (AttributeError ''pk''), s)
      | Some repository \<Rightarrow>
          (let hs = enqueue_with_reservation Task_sync
                      [Repository repository, Remote remote]
                      [(''remote_pk'', Pk remote),
                       (''repository_pk'', Pk repository),
                       (''mirror'', Flag (sv_mirror validated))] s
           in (Inr (OperationPostponedResponse (fst hs)), snd hs)))))"

text \<open>
  Lines 197 to 202 of \<^verbatim>\<open>publish\<close>: the version the request names, or else the
  latest version of the repository it names, read when the handler runs.
\<close>

definition resolve_version ::
  "dispatch_collaborators \<Rightarrow> publish_validated \<Rightarrow> tasking \<Rightarrow> repository_version option \<times> tasking" where
  "resolve_version D validated s =
     (case pv_repository_version validated of
        Some rv \<Rightarrow> (Some rv, s)
      | None \<Rightarrow>
          (latest D (pv_repository validated),
           s\<lparr>calls := calls s @ [LatestRead (pv_repository validated)]\<rparr>))"

text \<open>
  \<^verbatim>\<open>publish\<close>, lines 191 to 212. When \<^verbatim>\<open>latest\<close> returned \<^verbatim>\<open>None\<close>, reading
  \<^verbatim>\<open>repository_version.repository\<close> at line 206 raises.
\<close>

definition publish :: "dispatch_collaborators \<Rightarrow> request \<Rightarrow> pk \<Rightarrow> tasking \<Rightarrow> (error + postponed) \<times> tasking" where
  "publish D request pk s =
     (case get_object D pk of
        Inl e \<Rightarrow> (Inl e, s)
      | Inr publisher \<Rightarrow>
     (case publish_serializer D request of
        Inl e \<Rightarrow> (Inl e, s)
      | Inr validated \<Rightarrow>
     (case resolve_version D validated s of
        (None, s1) \<Rightarrow> (Inl (AttributeError ''repository''), s1)
      | (Some repository_version, s1) \<Rightarrow>
          (let hs = enqueue_with_reservation Task_publish
                      [Repository (rv_repository repository_version), Publisher publisher]
                      [(''publisher_pk'', Pk publisher),
                       (''repository_version_pk'', Pk (rv_pk repository_version))] s1
           in (Inr (OperationPostponedResponse (fst hs)), snd hs)))))"

section \<open>Collaborators that are not part of the module\<close>

text \<open>
  Modelled from the spec: \<^verbatim>\<open>RepositoryPublishURLSerializer\<close> is imported from
  pulpcore and its code is not in the module; line 199 only says that it enforces
  "version OR repository". The specification (4.5, 7 and 8): exactly one of an explicit
  repository version or a repository must be supplied; a request with both or with
  neither is rejected with \<open>InvalidRequest\<close>. The two lookups turn a reference of the
  request into the instance it names.
\<close>

definition RepositoryPublishURLSerializer ::
  "(string \<Rightarrow> error + repository_version) \<Rightarrow> (string \<Rightarrow> error + pk) \<Rightarrow> request \<Rightarrow> error + publish_validated" where
  "RepositoryPublishURLSerializer version_of repository_of request =
     (case (req_data request ''repository_version'', req_data request ''repository'') of
        (None, None) \<Rightarrow> Inl (InvalidRequest ''repository_version or repository is required'')
      | (Some v, Some r) \<Rightarrow> Inl (InvalidRequest ''repository_version and repository exclude each other'')
      | (Some v, None) \<Rightarrow>
          (case version_of v of
             Inl e \<Rightarrow> Inl e
           | Inr rv \<Rightarrow> Inr \<lparr>pv_repository_version = Some rv, pv_repository = None\<rparr>)
      | (None, Some r) \<Rightarrow>
          (case repository_of r of
             Inl e \<Rightarrow> Inl e
           | Inr repository \<Rightarrow> Inr \<lparr>pv_repository_version = None, pv_repository = Some repository\<rparr>))"

text \<open>
  The serializer \<^verbatim>\<open>PythonPackageContentSerializer\<close> and the store behind
  \<^verbatim>\<open>perform_create\<close> belong to \<^verbatim>\<open>pulp_python.app\<close> and pulpcore; their code is not
  in the module. The definitions of this section follow the specification
  (sections 3, 4.3, 4.4 and 6) instead.
\<close>

text \<open>
  Modelled from the spec: the serializer's check of one field that the canonical
  schema marks required (\<open>name\<close>, \<open>version\<close>, \<open>packagetype\<close>, \<open>filename\<close>, and the
  reference to the artifact): a string must be there.
\<close>

definition required_str :: "pydict \<Rightarrow> string \<Rightarrow> error + string" where
  "required_str d field =
     (case d field of
        Some (PStr s) \<Rightarrow> Inr s
      | _ \<Rightarrow> Inl (required field))"

text \<open>
  Modelled from the spec: the serializer's reading of the classifiers, an ordered
  sequence of classifier records \<^verbatim>\<open>{'name': c}\<close>; order and duplicates are kept.
\<close>

fun classifier_names :: "pyval list \<Rightarrow> string list option" where
  "classifier_names [] = Some []"
| "classifier_names (PDict [(k, PStr c)] # rest) =
     (if k = ''name'' then map_option ((#) c) (classifier_names rest) else None)"
| "classifier_names (v # rest) = None"

text \<open>Modelled from the spec: the serializer's reading of a field that is not required.\<close>

definition optional :: "pydict \<Rightarrow> string \<Rightarrow> pyval" where
  "optional d field = (case d field of None \<Rightarrow> PNone | Some v \<Rightarrow> v)"

text \<open>
  Modelled from the spec: the content unit the serializer makes of a normalized
  record; a record that lacks a required field is rejected.
\<close>

definition unit_of :: "pydict \<Rightarrow> error + content_unit" where
  "unit_of d =
     (case required_str d ''name'' of Inl e \<Rightarrow> Inl e | Inr name \<Rightarrow>
     (case required_str d ''version'' of Inl e \<Rightarrow> Inl e | Inr ver \<Rightarrow>
     (case required_str d ''packagetype'' of Inl e \<Rightarrow> Inl e | Inr packagetype \<Rightarrow>
     (case required_str d ''filename'' of Inl e \<Rightarrow> Inl e | Inr filename \<Rightarrow>
     (case required_str d ''artifact'' of Inl e \<Rightarrow> Inl e | Inr uri \<Rightarrow>
     (case d ''classifiers'' of
        Some (PList cs) \<Rightarrow>
          (case classifier_names cs of
             None \<Rightarrow> Inl (ValidationError (FieldDetail ''classifiers'' ''Not a list of classifiers''))
           | Some names \<Rightarrow>
               Inr \<lparr>cu_name = name, cu_version = ver, cu_packagetype = packagetype,
                    cu_filename = filename, cu_author = optional d ''author'',
                    cu_summary = optional d ''summary'', cu_keywords = optional d ''keywords'',
                    cu_classifiers = names, cu_artifact = uri\<rparr>)
      | _ \<Rightarrow> Inl (ValidationError (FieldDetail ''classifiers'' ''Not a list of classifiers''))))))))"

text \<open>
  Modelled from the spec: \<^verbatim>\<open>is_valid\<close> of the serializer, the schema validation of
  section 4.4; the validated data are the data.
\<close>

definition serializer_is_valid :: "pydict \<Rightarrow> error + pydict" where
  "serializer_is_valid d = (case unit_of d of Inl e \<Rightarrow> Inl e | Inr unit \<Rightarrow> Inr d)"

text \<open>Modelled from the spec: the key of the store's uniqueness rule, (artifact, filename).\<close>

definition same_key :: "string \<Rightarrow> string \<Rightarrow> content_unit \<Rightarrow> bool" where
  "same_key uri filename unit = (cu_artifact unit = uri \<and> cu_filename unit = filename)"

text \<open>
  Modelled from the spec: \<^verbatim>\<open>perform_create\<close> with the store of section 6, which
  creates the unit or rejects a second unit of the same key with \<open>ConflictError\<close>.
\<close>

definition serializer_save ::
  "pydict \<Rightarrow> content_unit list \<Rightarrow> (error + content_unit) \<times> content_unit list" where
  "serializer_save d table =
     (case unit_of d of
        Inl e \<Rightarrow> (Inl e, table)
      | Inr unit \<Rightarrow>
          (if list_ex (same_key (cu_artifact unit) (cu_filename unit)) table
           then (Inl (ConflictError (cu_filename unit)), table)
           else (Inr unit, table @ [unit])))"

text \<open>
  Modelled from the spec: reading a unit back, the query of the store of section 6 by
  artifact and filename.
\<close>

definition read_back :: "content_unit list \<Rightarrow> string \<Rightarrow> string \<Rightarrow> content_unit option" where
  "read_back table uri filename = find (same_key uri filename) table"

section \<open>Concrete inputs\<close>

text \<open>
  One artifact is stored; pkginfo reads the same metadata from every file;
  \<^verbatim>\<open>parse_project_metadata\<close> keeps the dict as it is.
\<close>

definition example_metadata :: pyobject where
  "example_metadata =
     \<lparr>obj_dict = [''name'' \<mapsto> PStr ''pkg'',
                  ''version'' \<mapsto> PStr ''0.1'',
                  ''classifiers'' \<mapsto> PList [PStr ''B'', PStr ''A'', PStr ''B'']],
      obj_class = [''name'' \<mapsto> PNone, ''version'' \<mapsto> PNone, ''summary'' \<mapsto> PNone,
                   ''classifiers'' \<mapsto> PList []]\<rparr>"

definition example_collaborators :: collaborators where
  "example_collaborators =
     \<lparr>get_resource = (\<lambda>uri. if uri = ''/artifacts/1/''
                             then Inr \<lparr>file_path = ''/var/artifact/ab12''\<rparr>
                             else Inl (ValidationError (Message (''URI not valid: '' @ uri)))),
      mkdtemp = (\<lambda>existing. Inr ''/tmp/tmp0''),
      copy2 = (\<lambda>src dst. None),
      pkginfo = (\<lambda>cls path. Inr example_metadata),
      parse_project_metadata = (\<lambda>attributes. Inr attributes),
      is_valid = serializer_is_valid,
      perform_create = serializer_save\<rparr>"

definition example_unit :: content_unit where
  "example_unit =
     \<lparr>cu_name = ''pkg'', cu_version = ''0.1'', cu_packagetype = ''sdist'',
      cu_filename = ''p.tar.gz'', cu_author = PNone, cu_summary = PNone,
      cu_keywords = PNone, cu_classifiers = [''B'', ''A'', ''B''],
      cu_artifact = ''/artifacts/1/''\<rparr>"

definition example_data :: pydict where
  "example_data =
     [''name'' \<mapsto> PStr ''pkg'',
      ''version'' \<mapsto> PStr ''0.1'',
      ''classifiers'' \<mapsto> PList [PDict [(''name'', PStr ''B'')], PDict [(''name'', PStr ''A'')],
                                 PDict [(''name'', PStr ''B'')]],
      ''packagetype'' \<mapsto> PStr ''sdist'',
      ''filename'' \<mapsto> PStr ''p.tar.gz'',
      ''artifact'' \<mapsto> PStr ''/artifacts/1/'']"

definition example_effects :: "string \<Rightarrow> dist_class \<Rightarrow> event list" where
  "example_effects filename cls =
     [TmpCreate ''/tmp/tmp0'',
      Copy ''/var/artifact/ab12'' (''/tmp/tmp0/'' @ filename),
      ReadMetadata cls (''/tmp/tmp0/'' @ filename),
      TmpCleanup ''/tmp/tmp0'']"

text \<open>The same collaborators, with a pkginfo that raises on every file.\<close>

definition failing_reader :: collaborators where
  "failing_reader =
     example_collaborators\<lparr>pkginfo := (\<lambda>cls path. Inl (ValueError ''Not a known archive format''))\<rparr>"

definition example_request :: "string \<Rightarrow> string \<Rightarrow> request" where
  "example_request uri filename = \<lparr>req_data = [''artifact'' \<mapsto> uri, ''filename'' \<mapsto> filename]\<rparr>"

definition empty_world :: world where
  "empty_world = \<lparr>content = [], tempdirs = [], effects = []\<rparr>"

text \<open>
  For the dispatchers: the URL names an existing remote or publisher, repository 1
  has the version 5 as its latest, and the request was validated to the data given.
\<close>

definition example_dispatch :: "sync_validated \<Rightarrow> publish_validated \<Rightarrow> dispatch_collaborators" where
  "example_dispatch sv pv =
     \<lparr>get_object = (\<lambda>pk. Inr pk),
      sync_serializer = (\<lambda>request. Inr sv),
      publish_serializer = (\<lambda>request. Inr pv),
      latest = (\<lambda>repository. if repository = Some 1
                              then Some \<lparr>rv_pk = 5, rv_repository = 1\<rparr> else None)\<rparr>"

definition idle :: tasking where
  "idle = \<lparr>queue = [], calls = []\<rparr>"

definition repository_only :: publish_validated where
  "repository_only = \<lparr>pv_repository_version = None, pv_repository = Some 1\<rparr>"

definition sync_of_1 :: sync_validated where
  "sync_of_1 = \<lparr>sv_repository = Some 1, sv_mirror = Some False\<rparr>"

definition publish_request :: request where
  "publish_request = \<lparr>req_data = [''repository'' \<mapsto> ''/repositories/1/'']\<rparr>"

definition example_sync_job :: job where
  "example_sync_job =
     \<lparr>job_task = Task_sync,
      job_resources = [Repository 1, Remote 3],
      job_kwargs = [(''remote_pk'', Pk 3), (''repository_pk'', Pk 1), (''mirror'', Flag (Some False))]\<rparr>"

definition example_publish_job :: job where
  "example_publish_job =
     \<lparr>job_task = Task_publish,
      job_resources = [Repository 1, Publisher 7],
      job_kwargs = [(''publisher_pk'', Pk 7), (''repository_version_pk'', Pk 5)]\<rparr>"

section \<open>Facts about the primitives and the loop\<close>

lemma endswith_iff: "endswith s e \<longleftrightarrow> (\<exists>p. s = p @ e)"
proof
  assume "endswith s e"
  then have "s = take (length s - length e) s @ e"
    by (metis append_take_drop_id endswith_def)
  then show "\<exists>p. s = p @ e" ..
next
  assume "\<exists>p. s = p @ e"
  then show "endswith s e" by (auto simp: endswith_def)
qed

lemma endswith_last: "endswith s e \<Longrightarrow> e \<noteq> [] \<Longrightarrow> last s = last e"
  by (auto simp: endswith_iff)

text \<open>The loop of \<open>extract_metadata\<close> runs its body at the first match of the scan.\<close>

lemma extract_metadata_match:
  "extract_metadata C artifact filename table w =
     (case match_extension filename table of
        None \<Rightarrow> (Inl (ValidationError (Message (invalid_extension_message filename))), w)
      | Some (ext, packagetype) \<Rightarrow>
          with_TemporaryDirectory C (read_metadata C artifact filename packagetype) w)"
  by (induction table) auto

lemma match_extension_None:
  "match_extension filename table = None \<longleftrightarrow> (\<forall>ext \<in> fst ` set table. \<not> endswith filename ext)"
  by (induction filename table rule: match_extension.induct) auto

lemma match_extension_Some:
  "match_extension filename table = Some (ext, packagetype) \<Longrightarrow>
     (ext, packagetype) \<in> set table \<and> endswith filename ext"
  by (induction filename table rule: match_extension.induct) (auto split: if_splits)

lemma tar_gz_match:
  assumes "endswith filename ''.tar.gz''"
  shows "match_extension filename DIST_EXTENSIONS = Some (''.tar.gz'', ''sdist'')"
proof -
  have z: "last filename = CHR ''z''"
    using endswith_last [OF assms] by simp
  have "\<not> endswith filename ''.whl''" "\<not> endswith filename ''.exe''"
       "\<not> endswith filename ''.egg''" "\<not> endswith filename ''.tar.bz2''"
    using z by (auto dest: endswith_last)
  with assms show ?thesis by (simp add: DIST_EXTENSIONS_def)
qed

lemma tar_bz2_match:
  assumes "endswith filename ''.tar.bz2''"
  shows "match_extension filename DIST_EXTENSIONS = Some (''.tar.bz2'', ''sdist'')"
proof -
  have two: "last filename = CHR ''2''"
    using endswith_last [OF assms] by simp
  have "\<not> endswith filename ''.whl''" "\<not> endswith filename ''.exe''"
       "\<not> endswith filename ''.egg''"
    using two by (auto dest: endswith_last)
  with assms show ?thesis by (simp add: DIST_EXTENSIONS_def)
qed

lemma getattr_setattr_same: "getattr (setattr obj attr v) attr = Inr v"
  by (simp add: getattr_def setattr_def)

lemma getattr_setattr_other: "attr' \<noteq> attr \<Longrightarrow> getattr (setattr obj attr v) attr' = getattr obj attr'"
  by (simp add: getattr_def setattr_def split: option.splits)

text \<open>
  No filename ends in two extensions of the table (their last characters differ), so
  the scan finds the same entry in whatever order the table is iterated.
\<close>

lemma match_unique:
  assumes "e1 \<in> fst ` set DIST_EXTENSIONS" "e2 \<in> fst ` set DIST_EXTENSIONS"
    and "endswith filename e1" "endswith filename e2"
  shows "e1 = e2"
proof -
  from assms(1,3) have "e1 \<noteq> []" "last filename = last e1"
    by (auto simp: DIST_EXTENSIONS_def dest: endswith_last)
  moreover from assms(2,4) have "e2 \<noteq> []" "last filename = last e2"
    by (auto simp: DIST_EXTENSIONS_def dest: endswith_last)
  ultimately have "last e1 = last e2" by simp
  with assms(1,2) show ?thesis by (auto simp: DIST_EXTENSIONS_def)
qed

section \<open>What each stage of \<^verbatim>\<open>create\<close> leaves behind\<close>

text \<open>
  The body of the \<^verbatim>\<open>with\<close> block writes nothing to the table and neither creates
  nor removes a directory; it makes the copy and, after it, at most the pkginfo call.
\<close>

lemma read_metadata_cases:
  "read_metadata C artifact filename packagetype td w = (r, w') \<Longrightarrow>
     content w' = content w \<and> tempdirs w' = tempdirs w \<and>
     (\<exists>cls. effects w' = effects w @ [Copy (file_path artifact) (os_path_join td filename)] \<and> isl r \<or>
            effects w' = effects w @ [Copy (file_path artifact) (os_path_join td filename),
                                      ReadMetadata cls (os_path_join td filename)])"
  by (auto simp: read_metadata_def Let_def split: option.splits sum.splits)

lemma read_metadata_Inr:
  "read_metadata C artifact filename packagetype td w = (Inr metadata, w') \<Longrightarrow>
     \<exists>cls m. map_of DIST_TYPES packagetype = Some cls \<and>
             copy2 C (file_path artifact) (os_path_join td filename) = None \<and>
             pkginfo C cls (os_path_join td filename) = Inr m \<and>
             metadata = setattr m ''packagetype'' (PStr packagetype)"
  by (auto simp: read_metadata_def Let_def split: option.splits sum.splits)

text \<open>
  The \<^verbatim>\<open>with\<close> statement around a body that leaves the directories alone: no
  directory is left, and the removal is the last call made.
\<close>

lemma with_TemporaryDirectory_cases:
  assumes body: "\<And>td w1 r w2. body td w1 = (r, w2) \<Longrightarrow>
                   content w2 = content w1 \<and> tempdirs w2 = tempdirs w1 \<and>
                   (\<exists>mid. effects w2 = effects w1 @ mid \<and>
                          (\<forall>d. TmpCreate d \<notin> set mid \<and> TmpCleanup d \<notin> set mid))"
    and run: "with_TemporaryDirectory C body w = (r, w')"
  shows "content w' = content w \<and> tempdirs w' = tempdirs w \<and>
         (effects w' = effects w \<and> isl r \<or>
          (\<exists>td mid. effects w' = effects w @ TmpCreate td # mid @ [TmpCleanup td] \<and>
                     (\<forall>d. TmpCreate d \<notin> set mid \<and> TmpCleanup d \<notin> set mid)))"
proof (cases "mkdtemp C (tempdirs w)")
  case (Inl e)
  with run show ?thesis by (auto simp: with_TemporaryDirectory_def)
next
  case (Inr td)
  define w1 where "w1 = w\<lparr>tempdirs := td # tempdirs w, effects := effects w @ [TmpCreate td]\<rparr>"
  obtain r2 w2 where b: "body td w1 = (r2, w2)" by (cases "body td w1")
  from body [OF b] obtain mid where
    m: "content w2 = content w1" "tempdirs w2 = tempdirs w1" "effects w2 = effects w1 @ mid"
       "\<forall>d. TmpCreate d \<notin> set mid \<and> TmpCleanup d \<notin> set mid"
    by blast
  from run Inr b
  have w': "w' = w2\<lparr>tempdirs := remove1 td (tempdirs w2), effects := effects w2 @ [TmpCleanup td]\<rparr>"
    by (simp add: with_TemporaryDirectory_def w1_def Let_def)
  have "effects w' = effects w @ TmpCreate td # mid @ [TmpCleanup td]"
    using w' m by (simp add: w1_def)
  moreover have "content w' = content w" "tempdirs w' = tempdirs w"
    using w' m by (simp_all add: w1_def)
  ultimately show ?thesis using m(4) by blast
qed

lemma with_TemporaryDirectory_Inr:
  "with_TemporaryDirectory C body w = (Inr x, w') \<Longrightarrow>
     \<exists>td w2. mkdtemp C (tempdirs w) = Inr td \<and>
             body td (w\<lparr>tempdirs := td # tempdirs w, effects := effects w @ [TmpCreate td]\<rparr>) = (Inr x, w2)"
  by (auto simp: with_TemporaryDirectory_def Let_def split: sum.splits) (metis prod.collapse)

lemma extract_metadata_cases:
  assumes "extract_metadata C artifact filename table w = (r, w')"
  shows "content w' = content w \<and> tempdirs w' = tempdirs w \<and>
         (effects w' = effects w \<and> isl r \<or>
          (\<exists>td mid. effects w' = effects w @ TmpCreate td # mid @ [TmpCleanup td] \<and>
                     (\<forall>d. TmpCreate d \<notin> set mid \<and> TmpCleanup d \<notin> set mid)))"
proof (cases "match_extension filename table")
  case None
  with assms show ?thesis by (auto simp: extract_metadata_match)
next
  case (Some p)
  obtain ext packagetype where p: "p = (ext, packagetype)" by (cases p)
  have run: "with_TemporaryDirectory C (read_metadata C artifact filename packagetype) w = (r, w')"
    using assms Some p by (simp add: extract_metadata_match)
  show ?thesis
  proof (rule with_TemporaryDirectory_cases [OF _ run])
    fix td w1 r2 w2
    assume "read_metadata C artifact filename packagetype td w1 = (r2, w2)"
    from read_metadata_cases [OF this]
    show "content w2 = content w1 \<and> tempdirs w2 = tempdirs w1 \<and>
          (\<exists>mid. effects w2 = effects w1 @ mid \<and>
                 (\<forall>d. TmpCreate d \<notin> set mid \<and> TmpCleanup d \<notin> set mid))"
      by auto
  qed
qed

lemma extract_metadata_Inr:
  assumes "extract_metadata C artifact filename table w = (Inr metadata, w')"
  shows "\<exists>ext packagetype td cls m.
           match_extension filename table = Some (ext, packagetype) \<and>
           mkdtemp C (tempdirs w) = Inr td \<and>
           map_of DIST_TYPES packagetype = Some cls \<and>
           pkginfo C cls (os_path_join td filename) = Inr m \<and>
           metadata = setattr m ''packagetype'' (PStr packagetype)"
proof (cases "match_extension filename table")
  case None
  with assms show ?thesis by (simp add: extract_metadata_match)
next
  case (Some p)
  obtain ext packagetype where p: "p = (ext, packagetype)" by (cases p)
  have "with_TemporaryDirectory C (read_metadata C artifact filename packagetype) w = (Inr metadata, w')"
    using assms Some p by (simp add: extract_metadata_match)
  from with_TemporaryDirectory_Inr [OF this] obtain td w1 w2 where
    "mkdtemp C (tempdirs w) = Inr td"
    "read_metadata C artifact filename packagetype td w1 = (Inr metadata, w2)"
    by blast
  with read_metadata_Inr [of C artifact filename packagetype td w1 metadata w2] Some p
  show ?thesis by auto
qed

lemma build_data_Inr:
  "build_data C request filename metadata = Inr d \<Longrightarrow>
     \<exists>parsed cv classifiers pt ver uri.
        parse_project_metadata C (py_vars metadata) = Inr parsed \<and>
        getattr metadata ''classifiers'' = Inr cv \<and> iterate cv = Inr classifiers \<and>
        getattr metadata ''packagetype'' = Inr pt \<and>
        getattr metadata ''version'' = Inr ver \<and>
        req_data request ''artifact'' = Some uri \<and>
        d = parsed(''classifiers'' \<mapsto> PList (map (\<lambda>classifier. PDict [(''name'', classifier)]) classifiers),
                   ''packagetype'' \<mapsto> pt,
                   ''version'' \<mapsto> ver,
                   ''filename'' \<mapsto> PStr filename,
                   ''artifact'' \<mapsto> PStr uri)"
  by (auto simp: build_data_def split: sum.splits option.splits)

lemma normalized_data_cases:
  assumes "normalized_data C request w = (r, w')"
  shows "content w' = content w \<and> tempdirs w' = tempdirs w \<and>
         (effects w' = effects w \<and> isl r \<or>
          (\<exists>td mid. effects w' = effects w @ TmpCreate td # mid @ [TmpCleanup td] \<and>
                     (\<forall>d. TmpCreate d \<notin> set mid \<and> TmpCleanup d \<notin> set mid)))"
  using assms
  apply (simp add: normalized_data_def split: option.splits sum.splits error.splits prod.splits)
  apply (auto dest!: extract_metadata_cases)
  done

lemma normalized_data_Inr:
  assumes "normalized_data C request w = (Inr d, w')"
  shows "\<exists>uri artifact filename metadata w1.
           req_data request ''artifact'' = Some uri \<and>
           get_resource C uri = Inr artifact \<and>
           req_data request ''filename'' = Some filename \<and>
           extract_metadata C artifact filename DIST_EXTENSIONS w = (Inr metadata, w1) \<and>
           build_data C request filename metadata = Inr d"
  using assms
  by (auto simp: normalized_data_def split: option.splits sum.splits error.splits prod.splits)

lemma create_cases:
  assumes "create C request w = (r, w')"
  shows "tempdirs w' = tempdirs w \<and>
         (effects w' = effects w \<or>
          (\<exists>td mid. effects w' = effects w @ TmpCreate td # mid @ [TmpCleanup td] \<and>
                     (\<forall>d. TmpCreate d \<notin> set mid \<and> TmpCleanup d \<notin> set mid)))"
proof -
  obtain rn wn where n: "normalized_data C request w = (rn, wn)"
    by (cases "normalized_data C request w")
  have "tempdirs w' = tempdirs wn \<and> effects w' = effects wn"
    using assms n
    by (auto simp: create_def transaction_atomic_def create_body_def
             split: sum.splits prod.splits)
  with normalized_data_cases [OF n] show ?thesis by auto
qed

lemma create_failure:
  "create C request w = (Inl e, w') \<Longrightarrow> content w' = content w"
  by (auto simp: create_def transaction_atomic_def split: sum.splits prod.splits)

lemma create_success:
  assumes "create C request w = (Inr resp, w')"
  shows "\<exists>d w1 validated unit.
           normalized_data C request w = (Inr d, w1) \<and>
           is_valid C d = Inr validated \<and>
           perform_create C validated (content w) = (Inr unit, content w') \<and>
           resp = Response unit 201"
proof -
  obtain rn wn where n: "normalized_data C request w = (rn, wn)"
    by (cases "normalized_data C request w")
  from normalized_data_cases [OF n] have c: "content wn = content w" by simp
  show ?thesis
    using assms n c
    by (auto simp: create_def transaction_atomic_def create_body_def
             split: sum.splits prod.splits)
qed

section \<open>The concrete run\<close>

lemmas example_defs =
  example_collaborators_def example_request_def empty_world_def example_metadata_def

lemmas create_defs =
  create_def transaction_atomic_def create_body_def normalized_data_def required_def
  DIST_EXTENSIONS_def DIST_TYPES_def endswith_def with_TemporaryDirectory_def
  read_metadata_def os_path_join_def build_data_def getattr_def setattr_def py_vars_def
  iterate_def Let_def

lemmas serializer_defs =
  serializer_is_valid_def serializer_save_def unit_of_def required_str_def
  optional_def same_key_def

lemma example_create:
  "create example_collaborators (example_request ''/artifacts/1/'' ''p.tar.gz'') empty_world =
     (Inr (Response example_unit 201),
      \<lparr>content = [example_unit], tempdirs = [],
       effects = [TmpCreate ''/tmp/tmp0'',
                  Copy ''/var/artifact/ab12'' ''/tmp/tmp0/p.tar.gz'',
                  ReadMetadata SDist ''/tmp/tmp0/p.tar.gz'',
                  TmpCleanup ''/tmp/tmp0'']\<rparr>)"
  by (simp add: create_defs example_defs serializer_defs example_unit_def)

lemma serializer_save_appends:
  "serializer_save d table = (Inr unit, table') \<Longrightarrow> table' = table @ [unit]"
  by (auto simp: serializer_save_def split: sum.splits if_splits)

lemma example_normalized:
  "normalized_data example_collaborators (example_request ''/artifacts/1/'' ''p.tar.gz'') empty_world =
     (Inr example_data,
      \<lparr>content = [], tempdirs = [], effects = example_effects ''p.tar.gz'' SDist\<rparr>)"
  by (simp add: create_defs example_defs example_data_def example_effects_def fun_eq_iff)

section \<open>Facts about the message of line 100\<close>

lemma filename_in_message: "sublist filename (invalid_extension_message filename)"
  unfolding invalid_extension_message_def sublist_def by blast

lemma sublist_after: "sublist xs ys \<Longrightarrow> sublist xs (ps @ ys)"
  unfolding sublist_def by (metis append.assoc)

lemma suffixes_in_message:
  "\<forall>ext \<in> fst ` set DIST_EXTENSIONS. sublist ext (invalid_extension_message filename)"
proof -
  let ?tail = "'' is not a valid python extension (.whl, .exe, .egg, .tar.gz, .tar.bz2, .zip)''"
  have msg: "invalid_extension_message filename = (''Extension on '' @ filename) @ ?tail"
    by (simp only: invalid_extension_message_def append_assoc)
  have "sublist ''.whl'' ?tail" "sublist ''.exe'' ?tail" "sublist ''.egg'' ?tail"
       "sublist ''.tar.bz2'' ?tail" "sublist ''.tar.gz'' ?tail" "sublist ''.zip'' ?tail"
    by code_simp+
  then have "\<forall>ext \<in> fst ` set DIST_EXTENSIONS. sublist ext ?tail"
    by (simp add: DIST_EXTENSIONS_def)
  then have "\<forall>ext \<in> fst ` set DIST_EXTENSIONS. sublist ext ((''Extension on '' @ filename) @ ?tail)"
    by (blast intro: sublist_after)
  then show ?thesis
    by (simp only: msg)
qed

section \<open>Facts about the serializer and the store\<close>

lemma unit_of_Inr:
  "unit_of d = Inr unit \<Longrightarrow>
     d ''name'' = Some (PStr (cu_name unit)) \<and>
     d ''version'' = Some (PStr (cu_version unit)) \<and>
     d ''packagetype'' = Some (PStr (cu_packagetype unit)) \<and>
     d ''filename'' = Some (PStr (cu_filename unit)) \<and>
     d ''artifact'' = Some (PStr (cu_artifact unit)) \<and>
     (\<exists>cs. d ''classifiers'' = Some (PList cs) \<and> classifier_names cs = Some (cu_classifiers unit))"
  by (auto simp: unit_of_def required_str_def split: sum.splits option.splits pyval.splits)

text \<open>The classifier records built at line 106 are read back in the same order.\<close>

lemma classifier_names_map:
  "classifier_names (map (\<lambda>classifier. PDict [(''name'', classifier)]) cs) = Some names \<Longrightarrow>
     cs = map PStr names"
proof (induction cs arbitrary: names)
  case Nil
  then show ?case by simp
next
  case (Cons c cs)
  then show ?case by (cases c) auto
qed

lemma find_appended:
  "\<not> list_ex P table \<Longrightarrow> P x \<Longrightarrow> find P (table @ [x]) = Some x"
  by (induction table) auto

lemma serializer_save_Inr:
  "serializer_save d table = (Inr unit, table') \<Longrightarrow>
     unit_of d = Inr unit \<and> table' = table @ [unit] \<and>
     read_back table' (cu_artifact unit) (cu_filename unit) = Some unit"
  by (auto simp: serializer_save_def read_back_def find_appended same_key_def
           split: sum.splits if_splits)

lemma serializer_is_valid_Inr: "serializer_is_valid d = Inr validated \<Longrightarrow> validated = d"
  by (auto simp: serializer_is_valid_def split: sum.splits)

section \<open>What a dispatcher that succeeds has done\<close>

lemma sync_Inr:
  assumes "sync D request pk s = (Inr resp, s')"
  shows "\<exists>remote validated repository.
           get_object D pk = Inr remote \<and>
           sync_serializer D request = Inr validated \<and>
           sv_repository validated = Some repository \<and>
           resp = OperationPostponedResponse (length (queue s)) \<and>
           s' = snd (enqueue_with_reservation Task_sync
                  [Repository repository, Remote remote]
                  [(''remote_pk'', Pk remote), (''repository_pk'', Pk repository),
                   (''mirror'', Flag (sv_mirror validated))] s)"
  using assms
  by (auto simp: sync_def enqueue_with_reservation_def Let_def split: sum.splits option.splits)

lemma publish_Inr:
  assumes "publish D request pk s = (Inr resp, s')"
  shows "\<exists>publisher validated rv s1.
           get_object D pk = Inr publisher \<and>
           publish_serializer D request = Inr validated \<and>
           resolve_version D validated s = (Some rv, s1) \<and>
           queue s1 = queue s \<and>
           resp = OperationPostponedResponse (length (queue s)) \<and>
           s' = snd (enqueue_with_reservation Task_publish
                  [Repository (rv_repository rv), Publisher publisher]
                  [(''publisher_pk'', Pk publisher), (''repository_version_pk'', Pk (rv_pk rv))] s1)"
  using assms
  by (auto simp: publish_def enqueue_with_reservation_def resolve_version_def Let_def
           split: sum.splits option.splits prod.splits)

lemma enqueue_queue:
  "queue (snd (enqueue_with_reservation t resources kwargs s)) =
     queue s @ [\<lparr>job_task = t, job_resources = resources, job_kwargs = kwargs\<rparr>]"
  by (simp add: enqueue_with_reservation_def Let_def)

lemmas dispatch_defs =
  example_dispatch_def repository_only_def sync_of_1_def example_publish_job_def
  example_sync_job_def publish_request_def idle_def

lemma example_sync:
  "sync (example_dispatch sync_of_1 repository_only) publish_request 3 idle =
     (Inr (OperationPostponedResponse 0),
      \<lparr>queue = [example_sync_job], calls = [Enqueued example_sync_job]\<rparr>)"
  by (simp add: sync_def enqueue_with_reservation_def Let_def dispatch_defs)

lemma example_publish:
  "publish (example_dispatch sync_of_1 repository_only) publish_request 7 idle =
     (Inr (OperationPostponedResponse 0),
      \<lparr>queue = [example_publish_job],
       calls = [LatestRead (Some 1), Enqueued example_publish_job]\<rparr>)"
  by (simp add: publish_def resolve_version_def enqueue_with_reservation_def Let_def dispatch_defs)

section \<open>Format detection\<close>

text \<open>
  Claim C1. For every filename that ends in \<^verbatim>\<open>.tar.gz\<close> or in \<^verbatim>\<open>.tar.bz2\<close>, the scan
  of the extension table selects that compound entry, the tag it yields is
  \<^verbatim>\<open>sdist\<close>, and the loop of \<^verbatim>\<open>create\<close> runs its body with that tag: it does not
  reach the \<^verbatim>\<open>else\<close> branch that rejects the filename, and no other entry is taken.
\<close>

theorem compound_suffix_selected:
  "(endswith filename ''.tar.gz'' \<longrightarrow>
      match_extension filename DIST_EXTENSIONS = Some (''.tar.gz'', ''sdist'') \<and>
      extract_metadata C artifact filename DIST_EXTENSIONS w =
        with_TemporaryDirectory C (read_metadata C artifact filename ''sdist'') w) \<and>
   (endswith filename ''.tar.bz2'' \<longrightarrow>
      match_extension filename DIST_EXTENSIONS = Some (''.tar.bz2'', ''sdist'') \<and>
      extract_metadata C artifact filename DIST_EXTENSIONS w =
        with_TemporaryDirectory C (read_metadata C artifact filename ''sdist'') w)"
  by (simp add: extract_metadata_match tar_gz_match tar_bz2_match)

theorem compound_suffix_selected_witness:
  "endswith ''foo.tar.gz'' ''.tar.gz'' \<and>
   match_extension ''foo.tar.gz'' DIST_EXTENSIONS = Some (''.tar.gz'', ''sdist'') \<and>
   endswith ''foo-1.0.tar.bz2'' ''.tar.bz2'' \<and>
   match_extension ''foo-1.0.tar.bz2'' DIST_EXTENSIONS = Some (''.tar.bz2'', ''sdist'')"
proof -
  have gz: "endswith ''foo.tar.gz'' ''.tar.gz''"
    and bz: "endswith ''foo-1.0.tar.bz2'' ''.tar.bz2''"
    by (simp_all add: endswith_def)
  from gz bz
    compound_suffix_selected [of "''foo.tar.gz''"]
    compound_suffix_selected [of "''foo-1.0.tar.bz2''"]
  show ?thesis by simp
qed

section \<open>The transaction\<close>

text \<open>
  Claim C3. \<^verbatim>\<open>create\<close> runs inside \<^verbatim>\<open>transaction.atomic\<close>. Whatever the
  collaborators do, and even when \<^verbatim>\<open>perform_create\<close> fails after it has written
  rows: if \<^verbatim>\<open>create\<close> fails at any step, the table of content units is what it was
  before the request. If it succeeds, the table is what the one call of
  \<^verbatim>\<open>perform_create\<close> made of the table the request found; with a persistence layer
  that adds the unit it returns and nothing else, exactly that one unit was added.
\<close>

theorem create_atomic:
  assumes "\<And>d table unit table'.
             perform_create C d table = (Inr unit, table') \<Longrightarrow> table' = table @ [unit]"
  shows "(\<forall>e w'. create C request w = (Inl e, w') \<longrightarrow> content w' = content w) \<and>
         (\<forall>unit st w'. create C request w = (Inr (Response unit st), w') \<longrightarrow>
            (\<exists>validated. perform_create C validated (content w) = (Inr unit, content w')) \<and>
            content w' = content w @ [unit])"
proof (intro conjI allI impI)
  fix e w' assume "create C request w = (Inl e, w')"
  then show "content w' = content w" by (rule create_failure)
next
  fix unit st w' assume run: "create C request w = (Inr (Response unit st), w')"
  from create_success [OF run]
  show written: "\<exists>validated. perform_create C validated (content w) = (Inr unit, content w')"
    by auto
  then obtain validated
    where "perform_create C validated (content w) = (Inr unit, content w')" ..
  from assms [OF this] show "content w' = content w @ [unit]" .
qed

theorem create_atomic_witness:
  "fst (create example_collaborators (example_request ''/artifacts/1/'' ''p.tar.gz'') empty_world) =
     Inr (Response example_unit 201) \<and>
   content (snd (create example_collaborators (example_request ''/artifacts/1/'' ''p.tar.gz'') empty_world)) =
     content empty_world @ [example_unit]"
proof -
  let ?run = "create example_collaborators (example_request ''/artifacts/1/'' ''p.tar.gz'') empty_world"
  have contract: "\<And>d table unit table'.
      perform_create example_collaborators d table = (Inr unit, table') \<Longrightarrow> table' = table @ [unit]"
    by (simp add: example_collaborators_def serializer_save_appends)
  have res: "fst ?run = Inr (Response example_unit 201)"
    by (simp add: example_create)
  then have run: "?run = (Inr (Response example_unit 201), snd ?run)"
    by (metis prod.collapse)
  have "\<forall>unit st w'. ?run = (Inr (Response unit st), w') \<longrightarrow>
          (\<exists>validated. perform_create example_collaborators validated (content empty_world) =
              (Inr unit, content w')) \<and>
          content w' = content empty_world @ [unit]"
    using create_atomic [OF contract, where request = "example_request ''/artifacts/1/'' ''p.tar.gz''"
      and w = empty_world]
    by (rule conjunct2)
  with run have "content (snd ?run) = content empty_world @ [example_unit]"
    by blast
  with res show ?thesis by (rule conjI)
qed

section \<open>Missing fields\<close>

text \<open>
  Claim C4, as amended. A request without \<^verbatim>\<open>artifact\<close> fails with the validation
  error that names \<^verbatim>\<open>artifact\<close>. A request whose \<^verbatim>\<open>artifact\<close> is present and
  resolves, and which has no \<^verbatim>\<open>filename\<close>, fails with the validation error that
  names \<^verbatim>\<open>filename\<close>. Every request that lacks either field fails and leaves the
  world as it was: no temporary directory was created, nothing was copied, pkginfo
  was not called, nothing was written.
\<close>

theorem missing_field_rejected:
  "(req_data request ''artifact'' = None \<longrightarrow>
      create C request w =
        (Inl (ValidationError (FieldDetail ''artifact'' ''This field is required'')), w)) \<and>
   (req_data request ''artifact'' = Some uri \<and> get_resource C uri = Inr artifact \<and>
    req_data request ''filename'' = None \<longrightarrow>
      create C request w =
        (Inl (ValidationError (FieldDetail ''filename'' ''This field is required'')), w)) \<and>
   (req_data request ''artifact'' = None \<or> req_data request ''filename'' = None \<longrightarrow>
      isl (fst (create C request w)) \<and> snd (create C request w) = w)"
  by (auto simp: create_def transaction_atomic_def create_body_def normalized_data_def required_def
           split: option.splits sum.splits error.splits)

theorem missing_field_rejected_witness:
  "req_data \<lparr>req_data = [''filename'' \<mapsto> ''p.whl'']\<rparr> ''artifact'' = None \<and>
   create example_collaborators \<lparr>req_data = [''filename'' \<mapsto> ''p.whl'']\<rparr> empty_world =
     (Inl (ValidationError (FieldDetail ''artifact'' ''This field is required'')), empty_world) \<and>
   req_data \<lparr>req_data = [''artifact'' \<mapsto> ''/artifacts/1/'']\<rparr> ''filename'' = None \<and>
   get_resource example_collaborators ''/artifacts/1/'' = Inr \<lparr>file_path = ''/var/artifact/ab12''\<rparr> \<and>
   create example_collaborators \<lparr>req_data = [''artifact'' \<mapsto> ''/artifacts/1/'']\<rparr> empty_world =
     (Inl (ValidationError (FieldDetail ''filename'' ''This field is required'')), empty_world)"
proof -
  have a: "req_data \<lparr>req_data = [''filename'' \<mapsto> ''p.whl'']\<rparr> ''artifact'' = None"
    by simp
  have f: "req_data \<lparr>req_data = [''artifact'' \<mapsto> ''/artifacts/1/'']\<rparr> ''artifact'' = Some ''/artifacts/1/''"
          "get_resource example_collaborators ''/artifacts/1/'' = Inr \<lparr>file_path = ''/var/artifact/ab12''\<rparr>"
          "req_data \<lparr>req_data = [''artifact'' \<mapsto> ''/artifacts/1/'']\<rparr> ''filename'' = None"
    by (simp_all add: example_collaborators_def)
  from a f
    missing_field_rejected [where request = "\<lparr>req_data = [''filename'' \<mapsto> ''p.whl'']\<rparr>"
       and C = example_collaborators and w = empty_world]
    missing_field_rejected [where request = "\<lparr>req_data = [''artifact'' \<mapsto> ''/artifacts/1/'']\<rparr>"
       and uri = "''/artifacts/1/''" and C = example_collaborators
       and artifact = "\<lparr>file_path = ''/var/artifact/ab12''\<rparr>" and w = empty_world]
  show ?thesis by simp
qed

text \<open>
  The claim as first stated fails. A request without \<^verbatim>\<open>filename\<close> whose
  \<^verbatim>\<open>artifact\<close> does not resolve fails at line 77 with the error of
  \<^verbatim>\<open>get_resource\<close>, and a request with neither field fails at line 79 with the
  error that names \<^verbatim>\<open>artifact\<close>; in both the error is silent about \<^verbatim>\<open>filename\<close>.
\<close>

theorem missing_filename_counterexample:
  "req_data \<lparr>req_data = [''artifact'' \<mapsto> ''/artifacts/2/'']\<rparr> ''filename'' = None \<and>
   create example_collaborators \<lparr>req_data = [''artifact'' \<mapsto> ''/artifacts/2/'']\<rparr> empty_world =
     (Inl (ValidationError (Message ''URI not valid: /artifacts/2/'')), empty_world) \<and>
   req_data \<lparr>req_data = Map.empty\<rparr> ''filename'' = None \<and>
   create example_collaborators \<lparr>req_data = Map.empty\<rparr> empty_world =
     (Inl (ValidationError (FieldDetail ''artifact'' ''This field is required'')), empty_world)"
  by (simp add: create_defs example_defs)

section \<open>The temporary directory\<close>

text \<open>
  Claim C8. Whatever the collaborators do (the copy fails, pkginfo raises, the
  serializer rejects the data, the write fails, or all succeed), after \<^verbatim>\<open>create\<close>
  the temporary directories that exist are those that existed before. Either no
  directory was created at all, or one was, and its removal is the last call made,
  with no other directory created or removed in between.
\<close>

theorem tempdir_released:
  "tempdirs (snd (create C request w)) = tempdirs w \<and>
   (effects (snd (create C request w)) = effects w \<or>
    (\<exists>td mid. effects (snd (create C request w)) = effects w @ TmpCreate td # mid @ [TmpCleanup td] \<and>
               (\<forall>d. TmpCreate d \<notin> set mid \<and> TmpCleanup d \<notin> set mid)))"
  using create_cases [of C request w "fst (create C request w)" "snd (create C request w)"]
  by simp

theorem tempdir_released_witness:
  "fst (create failing_reader (example_request ''/artifacts/1/'' ''p.whl'') empty_world) =
     Inl (ValueError ''Not a known archive format'') \<and>
   tempdirs (snd (create failing_reader (example_request ''/artifacts/1/'' ''p.whl'') empty_world)) =
     tempdirs empty_world \<and>
   effects (snd (create failing_reader (example_request ''/artifacts/1/'' ''p.whl'') empty_world)) =
     example_effects ''p.whl'' Wheel"
  using tempdir_released [of failing_reader "example_request ''/artifacts/1/'' ''p.whl''" empty_world]
  by (simp add: create_defs example_defs failing_reader_def example_effects_def)

section \<open>Unsupported extensions\<close>

text \<open>
  Claim C5. For a filename that ends in no extension of the table, the loop of
  \<^verbatim>\<open>create\<close> reaches its \<^verbatim>\<open>else\<close> and raises the validation error of line 100,
  whatever the collaborators do; a request that gets as far as the loop (its artifact
  resolves, its filename is that one) therefore fails with that error and leaves the
  world as it was, so no content unit is created. The message of the error contains
  the rejected filename and every extension of the table: \<^verbatim>\<open>.whl\<close>, \<^verbatim>\<open>.exe\<close>,
  \<^verbatim>\<open>.egg\<close>, \<^verbatim>\<open>.tar.bz2\<close>, \<^verbatim>\<open>.tar.gz\<close> and \<^verbatim>\<open>.zip\<close>.
\<close>

theorem unsupported_extension:
  assumes "\<forall>ext \<in> fst ` set DIST_EXTENSIONS. \<not> endswith filename ext"
  shows "extract_metadata C artifact filename DIST_EXTENSIONS w =
           (Inl (ValidationError (Message (invalid_extension_message filename))), w) \<and>
         (req_data request ''artifact'' = Some uri \<and> get_resource C uri = Inr artifact \<and>
          req_data request ''filename'' = Some filename \<longrightarrow>
            create C request w =
              (Inl (ValidationError (Message (invalid_extension_message filename))), w)) \<and>
         sublist filename (invalid_extension_message filename) \<and>
         (\<forall>ext \<in> fst ` set DIST_EXTENSIONS. sublist ext (invalid_extension_message filename))"
proof -
  from assms have "match_extension filename DIST_EXTENSIONS = None"
    by (simp only: match_extension_None)
  then have loop: "extract_metadata C artifact filename DIST_EXTENSIONS w =
               (Inl (ValidationError (Message (invalid_extension_message filename))), w)"
    by (simp add: extract_metadata_match)
  then have "req_data request ''artifact'' = Some uri \<and> get_resource C uri = Inr artifact \<and>
          req_data request ''filename'' = Some filename \<longrightarrow>
            create C request w =
              (Inl (ValidationError (Message (invalid_extension_message filename))), w)"
    by (simp add: create_def transaction_atomic_def create_body_def normalized_data_def)
  with loop filename_in_message suffixes_in_message show ?thesis by blast
qed

theorem unsupported_extension_witness:
  "create example_collaborators (example_request ''/artifacts/1/'' ''notes.txt.gz'') empty_world =
     (Inl (ValidationError (Message
        ''Extension on notes.txt.gz is not a valid python extension (.whl, .exe, .egg, .tar.gz, .tar.bz2, .zip)'')),
      empty_world) \<and>
   sublist ''notes.txt.gz'' (invalid_extension_message ''notes.txt.gz'') \<and>
   list_all (\<lambda>ext. sublist ext (invalid_extension_message ''notes.txt.gz''))
     [''.whl'', ''.exe'', ''.egg'', ''.tar.bz2'', ''.tar.gz'', ''.zip'']"
proof -
  have h: "\<forall>ext \<in> fst ` set DIST_EXTENSIONS. \<not> endswith ''notes.txt.gz'' ext"
    by (simp add: DIST_EXTENSIONS_def endswith_def)
  have r: "req_data (example_request ''/artifacts/1/'' ''notes.txt.gz'') ''artifact'' = Some ''/artifacts/1/''"
          "get_resource example_collaborators ''/artifacts/1/'' = Inr \<lparr>file_path = ''/var/artifact/ab12''\<rparr>"
          "req_data (example_request ''/artifacts/1/'' ''notes.txt.gz'') ''filename'' = Some ''notes.txt.gz''"
    by (simp_all add: example_defs)
  from r unsupported_extension [OF h, where C = example_collaborators
         and request = "example_request ''/artifacts/1/'' ''notes.txt.gz''"
         and uri = "''/artifacts/1/''" and artifact = "\<lparr>file_path = ''/var/artifact/ab12''\<rparr>"
         and w = empty_world]
  show ?thesis by (simp add: invalid_extension_message_def DIST_EXTENSIONS_def)
qed

section \<open>Where \<^verbatim>\<open>packagetype\<close> and \<^verbatim>\<open>version\<close> come from\<close>

text \<open>
  Claim C6, as amended. In the dict that \<^verbatim>\<open>create\<close> hands to the serializer,
  \<^verbatim>\<open>version\<close> is the \<^verbatim>\<open>version\<close> attribute of the object pkginfo returned,
  unchanged, and \<^verbatim>\<open>packagetype\<close> is the tag of the extension-table entry that the
  filename matched: line 97 assigns that tag to the object and line 107 copies it.
  Neither value is taken from what \<^verbatim>\<open>parse_project_metadata\<close> returned.
\<close>

theorem packagetype_from_filename:
  assumes "normalized_data C request w = (Inr d, w')"
  shows "\<exists>filename ext packagetype td cls metadata ver.
           req_data request ''filename'' = Some filename \<and>
           match_extension filename DIST_EXTENSIONS = Some (ext, packagetype) \<and>
           map_of DIST_TYPES packagetype = Some cls \<and>
           pkginfo C cls (os_path_join td filename) = Inr metadata \<and>
           getattr metadata ''version'' = Inr ver \<and>
           d ''version'' = Some ver \<and>
           d ''packagetype'' = Some (PStr packagetype)"
proof -
  from normalized_data_Inr [OF assms] obtain uri artifact filename md w1 where
    f: "req_data request ''filename'' = Some filename"
    and x: "extract_metadata C artifact filename DIST_EXTENSIONS w = (Inr md, w1)"
    and b: "build_data C request filename md = Inr d"
    by blast
  from extract_metadata_Inr [OF x] obtain ext packagetype td cls m where
    m: "match_extension filename DIST_EXTENSIONS = Some (ext, packagetype)"
       "map_of DIST_TYPES packagetype = Some cls"
       "pkginfo C cls (os_path_join td filename) = Inr m"
    and md: "md = setattr m ''packagetype'' (PStr packagetype)"
    by blast
  from build_data_Inr [OF b] obtain pt ver where
    g: "getattr md ''packagetype'' = Inr pt" "getattr md ''version'' = Inr ver"
    and d: "d ''version'' = Some ver" "d ''packagetype'' = Some pt"
    by auto
  from g md have "pt = PStr packagetype" "getattr m ''version'' = Inr ver"
    by (simp_all add: getattr_setattr_same getattr_setattr_other)
  with f m d show ?thesis by blast
qed

theorem packagetype_from_filename_witness:
  "normalized_data example_collaborators (example_request ''/artifacts/1/'' ''p.tar.gz'') empty_world =
     (Inr example_data,
      \<lparr>content = [], tempdirs = [], effects = example_effects ''p.tar.gz'' SDist\<rparr>) \<and>
   example_data ''packagetype'' = Some (PStr ''sdist'') \<and>
   example_data ''version'' = Some (PStr ''0.1'') \<and>
   getattr example_metadata ''version'' = Inr (PStr ''0.1'')"
proof -
  from packagetype_from_filename [OF example_normalized]
  obtain filename ext packagetype td cls metadata ver where
    f: "req_data (example_request ''/artifacts/1/'' ''p.tar.gz'') ''filename'' = Some filename"
    and m: "match_extension filename DIST_EXTENSIONS = Some (ext, packagetype)"
    and r: "pkginfo example_collaborators cls (os_path_join td filename) = Inr metadata"
    and d: "getattr metadata ''version'' = Inr ver" "example_data ''version'' = Some ver"
           "example_data ''packagetype'' = Some (PStr packagetype)"
    by blast
  from f have "filename = ''p.tar.gz''" by (simp add: example_request_def)
  with m have "packagetype = ''sdist''" by (simp add: DIST_EXTENSIONS_def endswith_def)
  moreover from r have "metadata = example_metadata" by (simp add: example_collaborators_def)
  ultimately have "example_data ''packagetype'' = Some (PStr ''sdist'')"
    and "getattr example_metadata ''version'' = Inr ver" "example_data ''version'' = Some ver"
    using d by simp_all
  moreover have "getattr example_metadata ''version'' = Inr (PStr ''0.1'')"
    by (simp add: example_metadata_def getattr_def)
  ultimately show ?thesis using example_normalized by simp
qed

text \<open>
  The claim as first stated fails for \<^verbatim>\<open>packagetype\<close>. The object pkginfo returns
  has no such attribute, and the same object read for \<^verbatim>\<open>p.whl\<close> and for
  \<^verbatim>\<open>p.egg\<close> gives two different values of \<^verbatim>\<open>packagetype\<close>: the value follows
  the filename.
\<close>

theorem packagetype_counterexample:
  "getattr example_metadata ''packagetype'' = Inl (AttributeError ''packagetype'') \<and>
   pkginfo example_collaborators Wheel ''/tmp/tmp0/p.whl'' = Inr example_metadata \<and>
   pkginfo example_collaborators BDist ''/tmp/tmp0/p.egg'' = Inr example_metadata \<and>
   map_sum id (\<lambda>d. d ''packagetype'')
     (fst (normalized_data example_collaborators (example_request ''/artifacts/1/'' ''p.whl'') empty_world)) =
     Inr (Some (PStr ''bdist_wheel'')) \<and>
   map_sum id (\<lambda>d. d ''packagetype'')
     (fst (normalized_data example_collaborators (example_request ''/artifacts/1/'' ''p.egg'') empty_world)) =
     Inr (Some (PStr ''bdist_egg''))"
  by (simp add: create_defs example_defs)

section \<open>Registering a unit and reading it back\<close>

text \<open>
  Claim C9. With the serializer and the store modelled from the specification:
  when \<^verbatim>\<open>create\<close> succeeds, the unit read back from the store under the
  request's artifact and filename is the unit of the response; its \<^verbatim>\<open>name\<close> is
  the one \<^verbatim>\<open>parse_project_metadata\<close> returned, its \<^verbatim>\<open>version\<close> the one of the
  object pkginfo returned, its \<^verbatim>\<open>packagetype\<close> the tag matched, its \<^verbatim>\<open>filename\<close>
  the one submitted, and its classifiers are the classifiers of the pkginfo object,
  one for one in the same order, duplicates included.
\<close>

theorem round_trip:
  assumes "create (C\<lparr>is_valid := serializer_is_valid, perform_create := serializer_save\<rparr>) request w =
             (Inr (Response unit st), w')"
  shows "\<exists>uri filename ext packagetype td cls metadata parsed cv.
           req_data request ''artifact'' = Some uri \<and>
           req_data request ''filename'' = Some filename \<and>
           match_extension filename DIST_EXTENSIONS = Some (ext, packagetype) \<and>
           map_of DIST_TYPES packagetype = Some cls \<and>
           pkginfo C cls (os_path_join td filename) = Inr metadata \<and>
           parse_project_metadata C (py_vars (setattr metadata ''packagetype'' (PStr packagetype))) =
             Inr parsed \<and>
           read_back (content w') uri filename = Some unit \<and>
           parsed ''name'' = Some (PStr (cu_name unit)) \<and>
           getattr metadata ''version'' = Inr (PStr (cu_version unit)) \<and>
           cu_packagetype unit = packagetype \<and>
           cu_filename unit = filename \<and>
           getattr metadata ''classifiers'' = Inr cv \<and>
           iterate cv = Inr (map PStr (cu_classifiers unit))"
proof -
  let ?C = "C\<lparr>is_valid := serializer_is_valid, perform_create := serializer_save\<rparr>"
  from create_success [OF assms] obtain d w1 validated where
    n: "normalized_data ?C request w = (Inr d, w1)"
    and v: "serializer_is_valid d = Inr validated"
    and s: "serializer_save validated (content w) = (Inr unit, content w')"
    by auto
  from v have "validated = d" by (rule serializer_is_valid_Inr)
  with serializer_save_Inr [OF s] have
    u: "unit_of d = Inr unit"
    and rb: "read_back (content w') (cu_artifact unit) (cu_filename unit) = Some unit"
    by blast+
  from normalized_data_Inr [OF n] obtain uri artifact filename md w2 where
    r: "req_data request ''artifact'' = Some uri" "req_data request ''filename'' = Some filename"
    and x: "extract_metadata ?C artifact filename DIST_EXTENSIONS w = (Inr md, w2)"
    and b: "build_data ?C request filename md = Inr d"
    by blast
  from extract_metadata_Inr [OF x] obtain ext packagetype td cls m where
    m: "match_extension filename DIST_EXTENSIONS = Some (ext, packagetype)"
       "map_of DIST_TYPES packagetype = Some cls"
       "pkginfo C cls (os_path_join td filename) = Inr m"
    and md: "md = setattr m ''packagetype'' (PStr packagetype)"
    by auto
  from build_data_Inr [OF b] r obtain parsed cv classifiers pt ver where
    p: "parse_project_metadata C (py_vars md) = Inr parsed"
    and c: "getattr md ''classifiers'' = Inr cv" "iterate cv = Inr classifiers"
    and a: "getattr md ''packagetype'' = Inr pt" "getattr md ''version'' = Inr ver"
    and d: "d = parsed(''classifiers'' \<mapsto> PList (map (\<lambda>classifier. PDict [(''name'', classifier)]) classifiers),
                   ''packagetype'' \<mapsto> pt,
                   ''version'' \<mapsto> ver,
                   ''filename'' \<mapsto> PStr filename,
                   ''artifact'' \<mapsto> PStr uri)"
    by auto
  from unit_of_Inr [OF u] d have
    f: "parsed ''name'' = Some (PStr (cu_name unit))"
       "ver = PStr (cu_version unit)" "pt = PStr (cu_packagetype unit)"
       "cu_filename unit = filename" "cu_artifact unit = uri"
    and cn: "classifier_names (map (\<lambda>classifier. PDict [(''name'', classifier)]) classifiers) =
               Some (cu_classifiers unit)"
    by auto
  from classifier_names_map [OF cn] c
  have it: "getattr m ''classifiers'' = Inr cv" "iterate cv = Inr (map PStr (cu_classifiers unit))"
    by (simp_all add: md getattr_setattr_other)
  from a f md have vp: "getattr m ''version'' = Inr (PStr (cu_version unit))"
                       "cu_packagetype unit = packagetype"
    by (simp_all add: getattr_setattr_same getattr_setattr_other)
  from p md have "parse_project_metadata C (py_vars (setattr m ''packagetype'' (PStr packagetype))) =
                    Inr parsed"
    by simp
  with r m rb f vp it show ?thesis by blast
qed

theorem round_trip_witness:
  "read_back
     (content (snd (create example_collaborators (example_request ''/artifacts/1/'' ''p.tar.gz'') empty_world)))
     ''/artifacts/1/'' ''p.tar.gz'' = Some example_unit \<and>
   getattr example_metadata ''classifiers'' = Inr (PList (map PStr (cu_classifiers example_unit))) \<and>
   cu_classifiers example_unit = [''B'', ''A'', ''B'']"
proof -
  let ?R = "example_request ''/artifacts/1/'' ''p.tar.gz''"
  let ?W = "snd (create example_collaborators ?R empty_world)"
  have same: "example_collaborators\<lparr>is_valid := serializer_is_valid, perform_create := serializer_save\<rparr> =
                example_collaborators"
    by (simp add: example_collaborators_def)
  have run: "create (example_collaborators\<lparr>is_valid := serializer_is_valid, perform_create := serializer_save\<rparr>)
               ?R empty_world = (Inr (Response example_unit 201), ?W)"
    by (simp only: same) (simp add: example_create)
  from round_trip [OF run] obtain uri filename where
    "req_data ?R ''artifact'' = Some uri" "req_data ?R ''filename'' = Some filename"
    "read_back (content ?W) uri filename = Some example_unit"
    by blast
  then have "read_back (content ?W) ''/artifacts/1/'' ''p.tar.gz'' = Some example_unit"
    by (simp add: example_request_def)
  then show ?thesis by (simp add: example_metadata_def example_unit_def getattr_def)
qed

section \<open>The dispatchers\<close>

text \<open>
  Claim C10. A \<^verbatim>\<open>sync\<close> that returns a handle has enqueued one job whose resources
  are exactly the repository of the validated request and the remote of the URL. A
  \<^verbatim>\<open>publish\<close> that returns a handle has enqueued one job whose resources are exactly
  the repository of the resolved repository version and the publisher of the URL.
  Hence, when that repository is the one a sync targets, both jobs reserve it: the
  two resource sets overlap.
\<close>

theorem reservation_resources:
  "(\<forall>resp s'. sync D request pk s = (Inr resp, s') \<longrightarrow>
      (\<exists>remote validated repository j.
          get_object D pk = Inr remote \<and> sync_serializer D request = Inr validated \<and>
          sv_repository validated = Some repository \<and>
          queue s' = queue s @ [j] \<and> job_task j = Task_sync \<and>
          set (job_resources j) = {Repository repository, Remote remote})) \<and>
   (\<forall>resp t'. publish D' request' pk' t = (Inr resp, t') \<longrightarrow>
      (\<exists>publisher validated rv j.
          get_object D' pk' = Inr publisher \<and> publish_serializer D' request' = Inr validated \<and>
          fst (resolve_version D' validated t) = Some rv \<and>
          queue t' = queue t @ [j] \<and> job_task j = Task_publish \<and>
          set (job_resources j) = {Repository (rv_repository rv), Publisher publisher})) \<and>
   (\<forall>resp s' resp' t' validated validated' repository rv.
      sync D request pk s = (Inr resp, s') \<and> sync_serializer D request = Inr validated \<and>
      sv_repository validated = Some repository \<and>
      publish D' request' pk' t = (Inr resp', t') \<and> publish_serializer D' request' = Inr validated' \<and>
      fst (resolve_version D' validated' t) = Some rv \<and> rv_repository rv = repository \<longrightarrow>
        Repository repository \<in>
          set (job_resources (last (queue s'))) \<inter> set (job_resources (last (queue t'))))"
proof (intro conjI allI impI)
  fix resp s' assume "sync D request pk s = (Inr resp, s')"
  from sync_Inr [OF this]
  show "\<exists>remote validated repository j.
          get_object D pk = Inr remote \<and> sync_serializer D request = Inr validated \<and>
          sv_repository validated = Some repository \<and>
          queue s' = queue s @ [j] \<and> job_task j = Task_sync \<and>
          set (job_resources j) = {Repository repository, Remote remote}"
    by (auto simp: enqueue_queue)
next
  fix resp t' assume "publish D' request' pk' t = (Inr resp, t')"
  from publish_Inr [OF this]
  show "\<exists>publisher validated rv j.
          get_object D' pk' = Inr publisher \<and> publish_serializer D' request' = Inr validated \<and>
          fst (resolve_version D' validated t) = Some rv \<and>
          queue t' = queue t @ [j] \<and> job_task j = Task_publish \<and>
          set (job_resources j) = {Repository (rv_repository rv), Publisher publisher}"
    by (auto simp: enqueue_queue)
next
  fix resp s' resp' t' validated validated' repository rv
  assume a: "sync D request pk s = (Inr resp, s') \<and> sync_serializer D request = Inr validated \<and>
      sv_repository validated = Some repository \<and>
      publish D' request' pk' t = (Inr resp', t') \<and> publish_serializer D' request' = Inr validated' \<and>
      fst (resolve_version D' validated' t) = Some rv \<and> rv_repository rv = repository"
  then have s: "sync D request pk s = (Inr resp, s')"
    and p: "publish D' request' pk' t = (Inr resp', t')"
    by simp_all
  from sync_Inr [OF s] a have "Repository repository \<in> set (job_resources (last (queue s')))"
    by (auto simp: enqueue_queue)
  moreover from publish_Inr [OF p] a
  have "Repository repository \<in> set (job_resources (last (queue t')))"
    by (auto simp: enqueue_queue)
  ultimately show "Repository repository \<in>
          set (job_resources (last (queue s'))) \<inter> set (job_resources (last (queue t')))"
    by simp
qed

theorem reservation_resources_witness:
  "sync (example_dispatch sync_of_1 repository_only) publish_request 3 idle =
     (Inr (OperationPostponedResponse 0),
      \<lparr>queue = [example_sync_job], calls = [Enqueued example_sync_job]\<rparr>) \<and>
   publish (example_dispatch sync_of_1 repository_only) publish_request 7 idle =
     (Inr (OperationPostponedResponse 0),
      \<lparr>queue = [example_publish_job],
       calls = [LatestRead (Some 1), Enqueued example_publish_job]\<rparr>) \<and>
   Repository 1 \<in> set (job_resources example_sync_job) \<inter> set (job_resources example_publish_job)"
proof -
  let ?D = "example_dispatch sync_of_1 repository_only"
  let ?s' = "\<lparr>queue = [example_sync_job], calls = [Enqueued example_sync_job]\<rparr>"
  let ?t' = "\<lparr>queue = [example_publish_job],
              calls = [LatestRead (Some 1), Enqueued example_publish_job]\<rparr>"
  have h: "sync ?D publish_request 3 idle = (Inr (OperationPostponedResponse 0), ?s') \<and>
           sync_serializer ?D publish_request = Inr sync_of_1 \<and>
           sv_repository sync_of_1 = Some 1 \<and>
           publish ?D publish_request 7 idle = (Inr (OperationPostponedResponse 0), ?t') \<and>
           publish_serializer ?D publish_request = Inr repository_only \<and>
           fst (resolve_version ?D repository_only idle) = Some \<lparr>rv_pk = 5, rv_repository = 1\<rparr> \<and>
           rv_repository \<lparr>rv_pk = 5, rv_repository = 1\<rparr> = 1"
    using example_sync example_publish
    by (simp add: resolve_version_def dispatch_defs)
  have "\<forall>resp s' resp' t' validated validated' repository rv.
      sync ?D publish_request 3 idle = (Inr resp, s') \<and> sync_serializer ?D publish_request = Inr validated \<and>
      sv_repository validated = Some repository \<and>
      publish ?D publish_request 7 idle = (Inr resp', t') \<and>
      publish_serializer ?D publish_request = Inr validated' \<and>
      fst (resolve_version ?D validated' idle) = Some rv \<and> rv_repository rv = repository \<longrightarrow>
        Repository repository \<in>
          set (job_resources (last (queue s'))) \<inter> set (job_resources (last (queue t')))"
    using reservation_resources [where D = ?D and request = publish_request and pk = 3 and s = idle
        and D' = ?D and request' = publish_request and pk' = 7 and t = idle]
    by blast
  with h have "Repository 1 \<in>
      set (job_resources (last (queue ?s'))) \<inter> set (job_resources (last (queue ?t')))"
    by blast
  with example_sync example_publish show ?thesis by simp
qed

text \<open>
  Claim C2, as amended. When the validated request names a repository and no
  repository version, \<^verbatim>\<open>publish\<close> reads the latest version of that repository in
  the request handler, before it enqueues anything: the read is a call of its own
  that precedes the call of \<^verbatim>\<open>enqueue_with_reservation\<close>. The job is then
  enqueued with the primary key of the version that was read, reserving that
  version's repository and the publisher.
\<close>

theorem latest_read_before_enqueue:
  assumes "get_object D pk = Inr publisher"
    and "publish_serializer D request = Inr validated"
    and "pv_repository_version validated = None"
    and "pv_repository validated = Some repository"
    and "latest D (Some repository) = Some rv"
  shows "publish D request pk s =
           (Inr (OperationPostponedResponse (length (queue s))),
            s\<lparr>queue := queue s @
                 [\<lparr>job_task = Task_publish,
                   job_resources = [Repository (rv_repository rv), Publisher publisher],
                   job_kwargs = [(''publisher_pk'', Pk publisher),
                                 (''repository_version_pk'', Pk (rv_pk rv))]\<rparr>],
              calls := calls s @
                 [LatestRead (Some repository),
                  Enqueued \<lparr>job_task = Task_publish,
                   job_resources = [Repository (rv_repository rv), Publisher publisher],
                   job_kwargs = [(''publisher_pk'', Pk publisher),
                                 (''repository_version_pk'', Pk (rv_pk rv))]\<rparr>]\<rparr>)"
  using assms
  by (simp add: publish_def resolve_version_def enqueue_with_reservation_def Let_def)

theorem latest_read_before_enqueue_witness:
  "publish (example_dispatch sync_of_1 repository_only) publish_request 7 idle =
     (Inr (OperationPostponedResponse 0),
      \<lparr>queue = [example_publish_job],
       calls = [LatestRead (Some 1), Enqueued example_publish_job]\<rparr>)"
proof -
  have h: "get_object (example_dispatch sync_of_1 repository_only) 7 = Inr 7"
          "publish_serializer (example_dispatch sync_of_1 repository_only) publish_request =
             Inr repository_only"
          "pv_repository_version repository_only = None"
          "pv_repository repository_only = Some 1"
          "latest (example_dispatch sync_of_1 repository_only) (Some 1) =
             Some \<lparr>rv_pk = 5, rv_repository = 1\<rparr>"
    by (simp_all add: dispatch_defs)
  from latest_read_before_enqueue [OF h, of idle]
  show ?thesis by (simp add: idle_def example_publish_job_def)
qed

text \<open>
  The claim as first stated fails: for a request that names only a repository, the
  first call \<^verbatim>\<open>publish\<close> makes is the read of the latest version, and the job with
  its reservation is enqueued after it.
\<close>

theorem latest_read_counterexample:
  "fst (publish (example_dispatch sync_of_1 repository_only) publish_request 7 idle) =
     Inr (OperationPostponedResponse 0) \<and>
   calls (snd (publish (example_dispatch sync_of_1 repository_only) publish_request 7 idle)) =
     [LatestRead (Some 1), Enqueued example_publish_job]"
  by (simp add: publish_def resolve_version_def enqueue_with_reservation_def Let_def dispatch_defs)

text \<open>
  Claim C7. With the publish serializer modelled from the specification: a request
  that names both a repository version and a repository, or neither, makes
  \<^verbatim>\<open>publish\<close> fail and leaves the queue and the calls as they were, so no job is
  enqueued, no handle is returned and the latest version is not read. When the URL
  names an existing publisher the error is \<open>InvalidRequest\<close>.
\<close>

theorem invalid_publish_rejected:
  assumes "req_data request ''repository_version'' \<noteq> None \<and> req_data request ''repository'' \<noteq> None \<or>
           req_data request ''repository_version'' = None \<and> req_data request ''repository'' = None"
  shows "isl (fst (publish (D\<lparr>publish_serializer := RepositoryPublishURLSerializer version_of repository_of\<rparr>)
                     request pk s)) \<and>
         snd (publish (D\<lparr>publish_serializer := RepositoryPublishURLSerializer version_of repository_of\<rparr>)
                request pk s) = s \<and>
         (\<forall>publisher. get_object D pk = Inr publisher \<longrightarrow>
            (\<exists>msg. fst (publish (D\<lparr>publish_serializer := RepositoryPublishURLSerializer version_of repository_of\<rparr>)
                          request pk s) = Inl (InvalidRequest msg)))"
  using assms
  by (auto simp: publish_def RepositoryPublishURLSerializer_def split: sum.splits option.splits)

theorem invalid_publish_rejected_witness:
  "publish ((example_dispatch sync_of_1 repository_only)
              \<lparr>publish_serializer :=
                 RepositoryPublishURLSerializer (\<lambda>v. Inr \<lparr>rv_pk = 5, rv_repository = 1\<rparr>) (\<lambda>r. Inr 1)\<rparr>)
      \<lparr>req_data = Map.empty\<rparr> 7 idle =
     (Inl (InvalidRequest ''repository_version or repository is required''), idle) \<and>
   publish ((example_dispatch sync_of_1 repository_only)
              \<lparr>publish_serializer :=
                 RepositoryPublishURLSerializer (\<lambda>v. Inr \<lparr>rv_pk = 5, rv_repository = 1\<rparr>) (\<lambda>r. Inr 1)\<rparr>)
      \<lparr>req_data = [''repository'' \<mapsto> ''/repositories/1/'',
                   ''repository_version'' \<mapsto> ''/repositories/1/versions/5/'']\<rparr> 7 idle =
     (Inl (InvalidRequest ''repository_version and repository exclude each other''), idle)"
proof -
  let ?neither = "\<lparr>req_data = Map.empty\<rparr> :: request"
  let ?both = "\<lparr>req_data = [''repository'' \<mapsto> ''/repositories/1/'',
                   ''repository_version'' \<mapsto> ''/repositories/1/versions/5/'']\<rparr> :: request"
  have n: "req_data ?neither ''repository_version'' \<noteq> None \<and> req_data ?neither ''repository'' \<noteq> None \<or>
           req_data ?neither ''repository_version'' = None \<and> req_data ?neither ''repository'' = None"
    by simp
  have b: "req_data ?both ''repository_version'' \<noteq> None \<and> req_data ?both ''repository'' \<noteq> None \<or>
           req_data ?both ''repository_version'' = None \<and> req_data ?both ''repository'' = None"
    by simp
  from invalid_publish_rejected [OF n, where D = "example_dispatch sync_of_1 repository_only" and pk = 7
         and s = idle and version_of = "\<lambda>v. Inr \<lparr>rv_pk = 5, rv_repository = 1\<rparr>"
         and repository_of = "\<lambda>r. Inr 1"]
       invalid_publish_rejected [OF b, where D = "example_dispatch sync_of_1 repository_only" and pk = 7
         and s = idle and version_of = "\<lambda>v. Inr \<lparr>rv_pk = 5, rv_repository = 1\<rparr>"
         and repository_of = "\<lambda>r. Inr 1"]
  show ?thesis
    by (simp add: publish_def RepositoryPublishURLSerializer_def dispatch_defs)
qed

end
